theory Spec2Isabelle
  imports Main
begin

section \<open>Configuration and data\<close>

text \<open>
  \<^verbatim>\<open>SLEEP_THRESHOLD = 15\<close>: the number of frames the eyes must be closed before the
  alarm is triggered.
\<close>

definition SLEEP_THRESHOLD :: int where
  "SLEEP_THRESHOLD = 15"

text \<open>
  The module global \<^verbatim>\<open>alarm_sound\<close> is either a \<^verbatim>\<open>pygame.mixer.Sound\<close> made from the
  alarm file, or \<^verbatim>\<open>None\<close> when the file does not exist. A \<^verbatim>\<open>Sound\<close> object is truthy,
  so the test \<^verbatim>\<open>and alarm_sound\<close> of the source is \<open>alarm_sound \<noteq> None\<close>.
\<close>

datatype sound = Sound string

definition ALARM_FILE :: string where
  "ALARM_FILE = ''1.mp3''"

text \<open>Lines 22 to 27: the sound is loaded only when the file exists.\<close>

definition load_alarm_sound :: "bool \<Rightarrow> sound option" where
  "load_alarm_sound file_exists = (if file_exists then Some (Sound ALARM_FILE) else None)"

text \<open>The two calls the frame loop makes on the sound: \<^verbatim>\<open>play(-1)\<close> and \<^verbatim>\<open>stop()\<close>.\<close>

datatype sound_call = Play_loop | Stop

type_synonym bgr = "nat \<times> nat \<times> nat"

text \<open>
  Everything one call of \<^verbatim>\<open>get_frame\<close> reads and writes: the attribute
  \<^verbatim>\<open>self.score\<close> (a Python integer, unbounded), the module global \<^verbatim>\<open>alarm_active\<close>,
  the locals \<^verbatim>\<open>status\<close> and \<^verbatim>\<open>color\<close> that are drawn on the overlay, and the calls
  made on \<^verbatim>\<open>alarm_sound\<close> so far, oldest first.
\<close>

record frame_state =
  score :: int
  alarm_active :: bool
  status :: string
  color :: bgr
  calls :: "sound_call list"

section \<open>The frame loop\<close>

text \<open>Lines 97 to 109: the branch \<^verbatim>\<open>len(eyes) == 0\<close>.\<close>

definition eyes_closed :: "sound option \<Rightarrow> frame_state \<Rightarrow> frame_state" where
  "eyes_closed alarm_sound st =
     (let st1 = st\<lparr>score := score st + 1, status := ''Eyes Closed''\<rparr> in
      if score st1 > SLEEP_THRESHOLD then
        (let st2 = st1\<lparr>status := ''DROWSINESS ALERT!'', color := (0, 0, 255)\<rparr> in
         if \<not> alarm_active st2 \<and> alarm_sound \<noteq> None
         then st2\<lparr>calls := calls st2 @ [Play_loop], alarm_active := True\<rparr>
         else st2)
      else st1)"

text \<open>Lines 114 to 122: the branch with at least one eye found.\<close>

definition eyes_open :: "sound option \<Rightarrow> frame_state \<Rightarrow> frame_state" where
  "eyes_open alarm_sound st =
     (let st1 = st\<lparr>score := score st - 1\<rparr>;
          st2 = (if score st1 < 0 then st1\<lparr>score := 0\<rparr> else st1);
          st3 = st2\<lparr>status := ''Awake''\<rparr>
      in if alarm_active st3 \<and> alarm_sound \<noteq> None
         then st3\<lparr>calls := calls st3 @ [Stop], alarm_active := False\<rparr>
         else st3)"

text \<open>
  The body of \<^verbatim>\<open>for (x, y, w, h) in faces\<close>. A face is given by \<^verbatim>\<open>len(eyes)\<close>, the
  number of eyes the eye detector found inside it.
\<close>

definition face_body :: "sound option \<Rightarrow> nat \<Rightarrow> frame_state \<Rightarrow> frame_state" where
  "face_body alarm_sound eyes st =
     (if eyes = 0 then eyes_closed alarm_sound st else eyes_open alarm_sound st)"

fun for_faces :: "sound option \<Rightarrow> nat list \<Rightarrow> frame_state \<Rightarrow> frame_state" where
  "for_faces alarm_sound [] st = st"
| "for_faces alarm_sound (eyes # faces) st =
     for_faces alarm_sound faces (face_body alarm_sound eyes st)"

text \<open>
  \<^verbatim>\<open>VideoCamera.get_frame\<close>. The camera read gives \<open>None\<close> when \<^verbatim>\<open>success\<close> is false
  (the method returns at once and nothing changes), and otherwise the faces of the
  frame, in the order the loop visits them.
\<close>

definition get_frame :: "sound option \<Rightarrow> nat list option \<Rightarrow> frame_state \<Rightarrow> frame_state" where
  "get_frame alarm_sound rd st =
     (case rd of
        None \<Rightarrow> st
      | Some faces \<Rightarrow>
          (let st1 = st\<lparr>status := ''Active'', color := (0, 255, 0)\<rparr>;
               st2 = (if length faces = 0
                      then st1\<lparr>score := 0, status := ''No Face Found''\<rparr>
                      else st1)
           in for_faces alarm_sound faces st2))"

text \<open>
  \<^verbatim>\<open>gen\<close> calls \<^verbatim>\<open>get_frame\<close> forever; this is the state after its loop has gone
  through a finite sequence of camera reads.
\<close>

fun gen :: "sound option \<Rightarrow> nat list option list \<Rightarrow> frame_state \<Rightarrow> frame_state" where
  "gen alarm_sound [] st = st"
| "gen alarm_sound (rd # rds) st = gen alarm_sound rds (get_frame alarm_sound rd st)"

text \<open>
  The state at session start: \<^verbatim>\<open>__init__\<close> sets \<^verbatim>\<open>self.score = 0\<close> and the module
  sets \<^verbatim>\<open>alarm_active = False\<close>. The two locals do not exist before the first frame;
  no call has been made on the sound.
\<close>

definition initial :: frame_state where
  "initial = \<lparr>score = 0, alarm_active = False, status = [], color = (0, 0, 0), calls = []\<rparr>"

section \<open>Sessions of one process\<close>

text \<open>
  \<^verbatim>\<open>alarm_active\<close> is a global of the module, and \<^verbatim>\<open>video_feed\<close> makes a new
  \<^verbatim>\<open>VideoCamera\<close> for every request. A process therefore holds one flag, one sound
  with its calls, and the cameras alive, each under its identity with its own
  \<^verbatim>\<open>self.score\<close>.
\<close>

record process =
  module_alarm_active :: bool
  module_calls :: "sound_call list"
  cameras :: "nat \<rightharpoonup> int"

text \<open>Line 29: the module starts with the flag cleared; no camera exists yet.\<close>

definition module_start :: process where
  "module_start = \<lparr>module_alarm_active = False, module_calls = [], cameras = Map.empty\<rparr>"

text \<open>
  \<^verbatim>\<open>VideoCamera.__init__\<close> for the new object \<open>c\<close>: \<^verbatim>\<open>self.score = 0\<close>. The statement
  \<^verbatim>\<open>global alarm_active\<close> there only declares the name and assigns nothing.
\<close>

definition VideoCamera_init :: "nat \<Rightarrow> process \<Rightarrow> process" where
  "VideoCamera_init c p = p\<lparr>cameras := (cameras p)(c \<mapsto> 0)\<rparr>"

text \<open>
  \<^verbatim>\<open>get_frame\<close> called on the camera \<open>c\<close>: \<^verbatim>\<open>self.score\<close> is the score of \<open>c\<close>,
  \<^verbatim>\<open>alarm_active\<close> is the flag of the module.
\<close>

definition camera_get_frame ::
    "sound option \<Rightarrow> nat \<Rightarrow> nat list option \<Rightarrow> process \<Rightarrow> process" where
  "camera_get_frame alarm_sound c rd p =
     (case cameras p c of
        None \<Rightarrow> p
      | Some sc \<Rightarrow>
          (let st = get_frame alarm_sound rd
                      \<lparr>score = sc, alarm_active = module_alarm_active p, status = [],
                       color = (0, 0, 0), calls = module_calls p\<rparr>
           in p\<lparr>module_alarm_active := alarm_active st, module_calls := calls st,
                cameras := (cameras p)(c \<mapsto> score st)\<rparr>))"

fun camera_gen ::
    "sound option \<Rightarrow> nat \<Rightarrow> nat list option list \<Rightarrow> process \<Rightarrow> process" where
  "camera_gen alarm_sound c [] p = p"
| "camera_gen alarm_sound c (rd # rds) p =
     camera_gen alarm_sound c rds (camera_get_frame alarm_sound c rd p)"

text \<open>\<^verbatim>\<open>video_feed\<close>: \<^verbatim>\<open>gen(VideoCamera())\<close>, a new camera and then its frames.\<close>

definition video_feed ::
    "sound option \<Rightarrow> nat \<Rightarrow> nat list option list \<Rightarrow> process \<Rightarrow> process" where
  "video_feed alarm_sound c rds p = camera_gen alarm_sound c rds (VideoCamera_init c p)"

section \<open>One face\<close>

lemma eyes_closed_score: "score (eyes_closed a st) = score st + 1"
  by (simp add: eyes_closed_def Let_def)

lemma eyes_open_score: "score (eyes_open a st) = max 0 (score st - 1)"
  by (simp add: eyes_open_def Let_def)

lemma face_body_nonneg: "0 \<le> score st \<Longrightarrow> 0 \<le> score (face_body a eyes st)"
  by (simp add: face_body_def eyes_closed_score eyes_open_score)

lemma for_faces_nonneg: "0 \<le> score st \<Longrightarrow> 0 \<le> score (for_faces a faces st)"
  by (induction faces arbitrary: st) (simp_all add: face_body_nonneg)

lemma get_frame_nonneg: "0 \<le> score st \<Longrightarrow> 0 \<le> score (get_frame a rd st)"
  by (cases rd) (simp_all add: get_frame_def Let_def for_faces_nonneg)

lemma gen_nonneg: "0 \<le> score st \<Longrightarrow> 0 \<le> score (gen a rds st)"
  by (induction rds arbitrary: st) (simp_all add: get_frame_nonneg)

lemma eyes_closed_status:
  "status (eyes_closed a st) =
     (if score st + 1 > SLEEP_THRESHOLD then ''DROWSINESS ALERT!'' else ''Eyes Closed'')"
  by (simp add: eyes_closed_def Let_def)

lemma eyes_closed_alarm:
  "alarm_active (eyes_closed a st) =
     (if score st + 1 > SLEEP_THRESHOLD then alarm_active st \<or> a \<noteq> None else alarm_active st)"
  by (simp add: eyes_closed_def Let_def)

lemma eyes_closed_calls:
  "calls (eyes_closed a st) =
     calls st @ (if score st + 1 > SLEEP_THRESHOLD \<and> \<not> alarm_active st \<and> a \<noteq> None
                 then [Play_loop] else [])"
  by (simp add: eyes_closed_def Let_def)

lemma eyes_open_status: "status (eyes_open a st) = ''Awake''"
  by (simp add: eyes_open_def Let_def)

lemma eyes_open_alarm: "alarm_active (eyes_open a st) = (alarm_active st \<and> a = None)"
  by (auto simp add: eyes_open_def Let_def)

lemma eyes_open_calls:
  "calls (eyes_open a st) = calls st @ (if alarm_active st \<and> a \<noteq> None then [Stop] else [])"
  by (simp add: eyes_open_def Let_def)

section \<open>The loops\<close>

lemma get_frame_one:
  "get_frame a (Some [eyes]) st = face_body a eyes (st\<lparr>status := ''Active'', color := (0, 255, 0)\<rparr>)"
  by (simp add: get_frame_def Let_def)

lemma get_frame_faces:
  "faces \<noteq> [] \<Longrightarrow>
   get_frame a (Some faces) st = for_faces a faces (st\<lparr>status := ''Active'', color := (0, 255, 0)\<rparr>)"
  by (simp add: get_frame_def Let_def)

lemma for_faces_snoc: "for_faces a (faces @ [eyes]) st = face_body a eyes (for_faces a faces st)"
  by (induction faces arbitrary: st) simp_all

lemma gen_snoc: "gen a (rds @ [rd]) st = get_frame a rd (gen a rds st)"
  by (induction rds arbitrary: st) simp_all

section \<open>When the latch is set\<close>

text \<open>
  A face sets the latch only in the closed-eyes branch, with the sound loaded and the
  score above the threshold. With the sound loaded an open-eyes face always leaves the
  latch cleared, so a latch that is set after the loop was set or kept by its last face.
\<close>

lemma face_body_latch:
  "alarm_active (face_body a eyes st) \<Longrightarrow>
   alarm_active st \<or> (a \<noteq> None \<and> eyes = 0 \<and> SLEEP_THRESHOLD < score (face_body a eyes st))"
  by (auto simp add: face_body_def eyes_closed_alarm eyes_closed_score eyes_open_alarm
        split: if_splits)

lemma face_body_latch_sound:
  "a \<noteq> None \<Longrightarrow> alarm_active (face_body a eyes st) \<Longrightarrow>
   eyes = 0 \<and> score (face_body a eyes st) = score st + 1"
  by (auto simp add: face_body_def eyes_closed_score eyes_open_alarm split: if_splits)

lemma for_faces_latch:
  "alarm_active (for_faces a faces st) \<Longrightarrow>
   alarm_active st \<or>
   (a \<noteq> None \<and> faces \<noteq> [] \<and> last faces = 0 \<and> SLEEP_THRESHOLD < score (for_faces a faces st))"
proof (induction faces rule: rev_induct)
  case Nil
  then show ?case by simp
next
  case (snoc eyes faces)
  let ?mid = "for_faces a faces st"
  from snoc.prems have on: "alarm_active (face_body a eyes ?mid)"
    by (simp add: for_faces_snoc)
  from face_body_latch [OF on] show ?case
  proof
    assume mid_on: "alarm_active ?mid"
    from snoc.IH [OF mid_on] show ?thesis
    proof
      assume "alarm_active st"
      then show ?thesis by simp
    next
      assume h: "a \<noteq> None \<and> faces \<noteq> [] \<and> last faces = 0 \<and> SLEEP_THRESHOLD < score ?mid"
      then have "a \<noteq> None" by simp
      from face_body_latch_sound [OF this on] h show ?thesis
        by (auto simp add: for_faces_snoc)
    qed
  next
    assume "a \<noteq> None \<and> eyes = 0 \<and> SLEEP_THRESHOLD < score (face_body a eyes ?mid)"
    then show ?thesis by (auto simp add: for_faces_snoc)
  qed
qed

lemma get_frame_latch:
  assumes "\<not> alarm_active st" and "alarm_active (get_frame a rd st)"
  shows "a \<noteq> None \<and> (\<exists>faces. rd = Some faces \<and> faces \<noteq> [] \<and> last faces = 0) \<and>
         SLEEP_THRESHOLD < score (get_frame a rd st)"
proof (cases rd)
  case None
  with assms show ?thesis by (simp add: get_frame_def)
next
  case (Some faces)
  show ?thesis
  proof (cases "faces = []")
    case True
    with Some assms show ?thesis by (simp add: get_frame_def)
  next
    case False
    let ?st1 = "st\<lparr>status := ''Active'', color := (0, 255, 0)\<rparr>"
    from False Some have eq: "get_frame a rd st = for_faces a faces ?st1"
      by (simp add: get_frame_faces)
    with assms have "alarm_active (for_faces a faces ?st1)" by simp
    from for_faces_latch [OF this] assms(1) eq Some show ?thesis by simp
  qed
qed

lemma gen_latch_sound: "alarm_active (gen a rds st) \<Longrightarrow> alarm_active st \<or> a \<noteq> None"
proof (induction rds rule: rev_induct)
  case Nil
  then show ?case by simp
next
  case (snoc rd rds)
  show ?case
  proof (cases "alarm_active (gen a rds st)")
    case True
    then show ?thesis by (rule snoc.IH)
  next
    case False
    from snoc.prems have "alarm_active (get_frame a rd (gen a rds st))"
      by (simp add: gen_snoc)
    from get_frame_latch [OF False this] show ?thesis by simp
  qed
qed

section \<open>Without the sound\<close>

text \<open>Both assignments to the latch and both calls are guarded by \<^verbatim>\<open>and alarm_sound\<close>.\<close>

lemma face_body_no_sound:
  "calls (face_body None eyes st) = calls st \<and>
   alarm_active (face_body None eyes st) = alarm_active st"
  by (simp add: face_body_def eyes_closed_calls eyes_closed_alarm eyes_open_calls eyes_open_alarm)

lemma for_faces_no_sound:
  "calls (for_faces None faces st) = calls st \<and>
   alarm_active (for_faces None faces st) = alarm_active st"
  by (induction faces arbitrary: st) (simp_all add: face_body_no_sound)

lemma get_frame_no_sound:
  "calls (get_frame None rd st) = calls st \<and>
   alarm_active (get_frame None rd st) = alarm_active st"
  by (cases rd) (simp_all add: get_frame_def Let_def for_faces_no_sound)

lemma gen_no_sound:
  "calls (gen None rds st) = calls st \<and> alarm_active (gen None rds st) = alarm_active st"
  by (induction rds arbitrary: st) (simp_all add: get_frame_no_sound)

section \<open>Several faces in one frame\<close>

text \<open>
  The loop runs its body for every face. What a face does to the score, the latch and the
  sound depends on these three only, never on the two locals, so the loop over the faces
  of one frame gives the same score, latch, calls and status as one frame per face.
\<close>

lemma face_body_status:
  "status (face_body a eyes st) =
     (if eyes = 0
      then (if SLEEP_THRESHOLD < score (face_body a eyes st) then ''DROWSINESS ALERT!''
            else ''Eyes Closed'')
      else ''Awake'')"
  by (simp add: face_body_def eyes_closed_status eyes_closed_score eyes_open_status)

lemma face_body_same:
  assumes "score s = score t" and "alarm_active s = alarm_active t" and "calls s = calls t"
  shows "score (face_body a eyes s) = score (face_body a eyes t) \<and>
         alarm_active (face_body a eyes s) = alarm_active (face_body a eyes t) \<and>
         calls (face_body a eyes s) = calls (face_body a eyes t) \<and>
         status (face_body a eyes s) = status (face_body a eyes t)"
  using assms
  by (simp add: face_body_def eyes_closed_score eyes_closed_alarm eyes_closed_calls
        eyes_closed_status eyes_open_score eyes_open_alarm eyes_open_calls eyes_open_status)

lemma for_faces_as_frames:
  assumes "faces \<noteq> []"
    and "score s = score t" and "alarm_active s = alarm_active t" and "calls s = calls t"
  shows "score (for_faces a faces s) = score (gen a (map (\<lambda>eyes. Some [eyes]) faces) t) \<and>
         alarm_active (for_faces a faces s) =
           alarm_active (gen a (map (\<lambda>eyes. Some [eyes]) faces) t) \<and>
         calls (for_faces a faces s) = calls (gen a (map (\<lambda>eyes. Some [eyes]) faces) t) \<and>
         status (for_faces a faces s) = status (gen a (map (\<lambda>eyes. Some [eyes]) faces) t)"
  using assms
proof (induction faces arbitrary: s t)
  case Nil
  then show ?case by simp
next
  case (Cons eyes faces)
  let ?t1 = "t\<lparr>status := ''Active'', color := (0, 255, 0)\<rparr>"
  have same: "score (face_body a eyes s) = score (face_body a eyes ?t1) \<and>
         alarm_active (face_body a eyes s) = alarm_active (face_body a eyes ?t1) \<and>
         calls (face_body a eyes s) = calls (face_body a eyes ?t1) \<and>
         status (face_body a eyes s) = status (face_body a eyes ?t1)"
    by (rule face_body_same) (simp_all add: Cons.prems)
  show ?case
  proof (cases "faces = []")
    case True
    with same show ?thesis by (simp add: get_frame_one)
  next
    case False
    from Cons.IH [OF False, of "face_body a eyes s" "face_body a eyes ?t1"] same
    show ?thesis by (simp add: get_frame_one)
  qed
qed

lemma for_faces_last_status:
  "faces \<noteq> [] \<Longrightarrow>
   status (for_faces a faces st) =
     (if last faces = 0
      then (if SLEEP_THRESHOLD < score (for_faces a faces st) then ''DROWSINESS ALERT!''
            else ''Eyes Closed'')
      else ''Awake'')"
proof (induction faces rule: rev_induct)
  case Nil
  then show ?case by simp
next
  case (snoc eyes faces)
  show ?case
    unfolding for_faces_snoc last_snoc by (rule face_body_status)
qed

lemma face_body_calls:
  "\<exists>new. calls (face_body a eyes st) = calls st @ new \<and> length new \<le> 1"
  by (simp add: face_body_def eyes_closed_calls eyes_open_calls)

lemma for_faces_calls:
  "\<exists>new. calls (for_faces a faces st) = calls st @ new \<and> length new \<le> length faces"
proof (induction faces arbitrary: st)
  case Nil
  show ?case by simp
next
  case (Cons eyes faces)
  obtain n1 where n1: "calls (face_body a eyes st) = calls st @ n1" "length n1 \<le> 1"
    using face_body_calls by blast
  obtain n2 where n2: "calls (for_faces a faces (face_body a eyes st)) =
      calls (face_body a eyes st) @ n2" "length n2 \<le> length faces"
    using Cons.IH by blast
  from n1 n2 show ?case
    by (intro exI [of _ "n1 @ n2"]) simp
qed

section \<open>Cameras\<close>

lemma camera_get_frame_other:
  "c \<noteq> d \<Longrightarrow> cameras (camera_get_frame a c rd p) d = cameras p d"
  by (simp add: camera_get_frame_def Let_def split: option.splits)

section \<open>Claims\<close>

text \<open>
  C1, as stated, fails. After seventeen closed-eyes frames and one open-eyes frame the
  latch is cleared and the score is 16, already above the threshold of 15; the next
  closed-eyes frame sets the latch again, although the score does not cross the threshold
  at that step.
\<close>

theorem C1_counterexample:
  "alarm_active (gen (load_alarm_sound True) (replicate 17 (Some [0]) @ [Some [1]]) initial) = False \<and>
   score (gen (load_alarm_sound True) (replicate 17 (Some [0]) @ [Some [1]]) initial) = 16 \<and>
   SLEEP_THRESHOLD < 16 \<and>
   alarm_active (get_frame (load_alarm_sound True) (Some [0])
     (gen (load_alarm_sound True) (replicate 17 (Some [0]) @ [Some [1]]) initial)) = True"
  by code_simp

text \<open>
  C1, amended. The latch goes from cleared to set only in a frame whose last face has its
  eyes closed and after which the score is above \<^verbatim>\<open>SLEEP_THRESHOLD\<close>, and only when
  the sound is loaded. The score before that frame may be at the threshold or already
  above it.
\<close>

theorem C1_latch_on:
  assumes "\<not> alarm_active st" and "alarm_active (get_frame a rd st)"
  shows "(\<exists>faces. rd = Some faces \<and> faces \<noteq> [] \<and> last faces = 0) \<and>
         SLEEP_THRESHOLD < score (get_frame a rd st) \<and> a \<noteq> None"
  using get_frame_latch [OF assms] by simp

theorem C1_latch_on_witness:
  "\<not> alarm_active (gen (load_alarm_sound True) (replicate 15 (Some [0])) initial) \<and>
   alarm_active (get_frame (load_alarm_sound True) (Some [0])
     (gen (load_alarm_sound True) (replicate 15 (Some [0])) initial)) \<and>
   SLEEP_THRESHOLD < score (get_frame (load_alarm_sound True) (Some [0])
     (gen (load_alarm_sound True) (replicate 15 (Some [0])) initial))"
proof -
  let ?st = "gen (load_alarm_sound True) (replicate 15 (Some [0])) initial"
  have off: "\<not> alarm_active ?st" by code_simp
  have on: "alarm_active (get_frame (load_alarm_sound True) (Some [0]) ?st)" by code_simp
  from C1_latch_on [OF off on] off on show ?thesis by simp
qed

text \<open>
  C2, as stated, fails. At score 14 a frame with two faces, both with closed eyes, gives
  score 16, the alert status and the latch set; the last face alone gives score 15,
  "Eyes Closed" and the latch cleared. The score is changed once for each face.
\<close>

theorem C2_counterexample:
  "score (gen (load_alarm_sound True) (replicate 14 (Some [0])) initial) = 14 \<and>
   score (get_frame (load_alarm_sound True) (Some [0, 0])
     (gen (load_alarm_sound True) (replicate 14 (Some [0])) initial)) = 16 \<and>
   score (get_frame (load_alarm_sound True) (Some [0])
     (gen (load_alarm_sound True) (replicate 14 (Some [0])) initial)) = 15 \<and>
   status (get_frame (load_alarm_sound True) (Some [0, 0])
     (gen (load_alarm_sound True) (replicate 14 (Some [0])) initial)) = ''DROWSINESS ALERT!'' \<and>
   status (get_frame (load_alarm_sound True) (Some [0])
     (gen (load_alarm_sound True) (replicate 14 (Some [0])) initial)) = ''Eyes Closed'' \<and>
   alarm_active (get_frame (load_alarm_sound True) (Some [0, 0])
     (gen (load_alarm_sound True) (replicate 14 (Some [0])) initial)) = True \<and>
   alarm_active (get_frame (load_alarm_sound True) (Some [0])
     (gen (load_alarm_sound True) (replicate 14 (Some [0])) initial)) = False"
  by code_simp

text \<open>
  C2, amended. In a frame with at least one face every face is consumed, in iteration
  order: score, latch, sound calls and status after the frame are those reached by
  taking the faces one after the other as frames of one face each, so the score is
  changed once per face. The last face decides the status only together with the final
  score.
\<close>

theorem C2_every_face_consumed:
  assumes "faces \<noteq> []"
  shows "score (get_frame a (Some faces) st) =
           score (gen a (map (\<lambda>eyes. Some [eyes]) faces) st) \<and>
         alarm_active (get_frame a (Some faces) st) =
           alarm_active (gen a (map (\<lambda>eyes. Some [eyes]) faces) st) \<and>
         calls (get_frame a (Some faces) st) =
           calls (gen a (map (\<lambda>eyes. Some [eyes]) faces) st) \<and>
         status (get_frame a (Some faces) st) =
           status (gen a (map (\<lambda>eyes. Some [eyes]) faces) st) \<and>
         status (get_frame a (Some faces) st) =
           (if last faces = 0
            then (if SLEEP_THRESHOLD < score (get_frame a (Some faces) st)
                  then ''DROWSINESS ALERT!'' else ''Eyes Closed'')
            else ''Awake'')"
proof -
  let ?st1 = "st\<lparr>status := ''Active'', color := (0, 255, 0)\<rparr>"
  have eq: "get_frame a (Some faces) st = for_faces a faces ?st1"
    using assms by (rule get_frame_faces)
  have "score (for_faces a faces ?st1) = score (gen a (map (\<lambda>eyes. Some [eyes]) faces) st) \<and>
         alarm_active (for_faces a faces ?st1) =
           alarm_active (gen a (map (\<lambda>eyes. Some [eyes]) faces) st) \<and>
         calls (for_faces a faces ?st1) = calls (gen a (map (\<lambda>eyes. Some [eyes]) faces) st) \<and>
         status (for_faces a faces ?st1) = status (gen a (map (\<lambda>eyes. Some [eyes]) faces) st)"
    by (rule for_faces_as_frames [OF assms]) simp_all
  moreover note for_faces_last_status [OF assms, of a ?st1]
  ultimately show ?thesis unfolding eq by simp
qed

theorem C2_every_face_consumed_witness:
  "[0, 0] \<noteq> ([] :: nat list) \<and>
   score (get_frame (load_alarm_sound True) (Some [0, 0]) initial) = 2 \<and>
   score (gen (load_alarm_sound True) [Some [0], Some [0]] initial) = 2 \<and>
   status (get_frame (load_alarm_sound True) (Some [0, 0]) initial) = ''Eyes Closed''"
proof -
  have ne: "[0, 0] \<noteq> ([] :: nat list)" by simp
  have sc: "score (gen (load_alarm_sound True) [Some [0], Some [0]] initial) = 2" by code_simp
  from C2_every_face_consumed [OF ne, of "load_alarm_sound True" initial] sc
  show ?thesis by (auto simp add: SLEEP_THRESHOLD_def)
qed

text \<open>
  C3. Starting from the initial state, the score is at least 0 after every step of every
  input sequence, whatever the frames hold (a failed read, no face, one face or several)
  and whether or not the alarm sound was loaded.
\<close>

theorem C3_score_never_negative: "0 \<le> score (gen a (take n rds) initial)"
  by (rule gen_nonneg) (simp add: initial_def)

text \<open>
  C4. In any state, a frame without a face sets the score to 0 and the status to
  "No Face Found", leaves the alarm latch as it was and makes no call on the sound.
\<close>

theorem C4_no_face:
  "score (get_frame a (Some []) st) = 0 \<and>
   status (get_frame a (Some []) st) = ''No Face Found'' \<and>
   alarm_active (get_frame a (Some []) st) = alarm_active st \<and>
   calls (get_frame a (Some []) st) = calls st"
  by (simp add: get_frame_def)

text \<open>
  C5, as stated, fails. When the alarm file was not there at startup, fifteen closed-eyes
  frames leave the score at 15 with the latch cleared; the next closed-eyes frame gives
  score 16, above the threshold, and the status "DROWSINESS ALERT!", yet the latch, which
  was not set, is not set by it.
\<close>

theorem C5_counterexample:
  "score (gen (load_alarm_sound False) (replicate 15 (Some [0])) initial) = 15 \<and>
   alarm_active (gen (load_alarm_sound False) (replicate 15 (Some [0])) initial) = False \<and>
   score (get_frame (load_alarm_sound False) (Some [0])
     (gen (load_alarm_sound False) (replicate 15 (Some [0])) initial)) = 16 \<and>
   SLEEP_THRESHOLD < 16 \<and>
   status (get_frame (load_alarm_sound False) (Some [0])
     (gen (load_alarm_sound False) (replicate 15 (Some [0])) initial)) = ''DROWSINESS ALERT!'' \<and>
   alarm_active (get_frame (load_alarm_sound False) (Some [0])
     (gen (load_alarm_sound False) (replicate 15 (Some [0])) initial)) = False"
  by code_simp

text \<open>
  C5, amended. In any state, a frame with one face and no eye found adds exactly 1 to the
  score, an unbounded integer. If the new score is above \<^verbatim>\<open>SLEEP_THRESHOLD\<close> the
  status is "DROWSINESS ALERT!", and the latch is set and the sound started when the
  latch is not already set and the sound is loaded; a latch that is set stays set and
  nothing is started again, and without the sound the latch stays as it was. Otherwise
  the status is "Eyes Closed" and the latch is unchanged.
\<close>

theorem C5_eyes_closed:
  "score (get_frame a (Some [0]) st) = score st + 1 \<and>
   status (get_frame a (Some [0]) st) =
     (if score st + 1 > SLEEP_THRESHOLD then ''DROWSINESS ALERT!'' else ''Eyes Closed'') \<and>
   alarm_active (get_frame a (Some [0]) st) =
     (if score st + 1 > SLEEP_THRESHOLD then alarm_active st \<or> a \<noteq> None else alarm_active st) \<and>
   calls (get_frame a (Some [0]) st) =
     calls st @ (if score st + 1 > SLEEP_THRESHOLD \<and> \<not> alarm_active st \<and> a \<noteq> None
                 then [Play_loop] else [])"
  by (simp add: get_frame_one face_body_def eyes_closed_score eyes_closed_status
        eyes_closed_alarm eyes_closed_calls)

text \<open>
  C6. In any state the program can be in (the latch is set only when the sound is loaded,
  see \<open>gen_latch_sound\<close>), a frame with one face and at least one eye found takes 1 off
  the score, not below 0, sets the status to "Awake" and clears the latch, stopping the
  sound if the latch was set, whatever the score is.
\<close>

theorem C6_eyes_open:
  assumes "0 < eyes" and "alarm_active st \<longrightarrow> a \<noteq> None"
  shows "score (get_frame a (Some [eyes]) st) = max 0 (score st - 1) \<and>
         status (get_frame a (Some [eyes]) st) = ''Awake'' \<and>
         alarm_active (get_frame a (Some [eyes]) st) = False \<and>
         calls (get_frame a (Some [eyes]) st) = calls st @ (if alarm_active st then [Stop] else [])"
  using assms
  by (auto simp add: get_frame_one face_body_def eyes_open_score eyes_open_status
        eyes_open_alarm eyes_open_calls)

text \<open>
  At score 17 with the latch set, one open-eyes frame clears the latch while the score, 16,
  is still above the threshold.
\<close>

theorem C6_eyes_open_witness:
  "alarm_active (gen (load_alarm_sound True) (replicate 17 (Some [0])) initial) \<and>
   load_alarm_sound True \<noteq> None \<and>
   score (gen (load_alarm_sound True) (replicate 17 (Some [0])) initial) = 17 \<and>
   score (get_frame (load_alarm_sound True) (Some [1])
     (gen (load_alarm_sound True) (replicate 17 (Some [0])) initial)) = 16 \<and>
   SLEEP_THRESHOLD < 16 \<and>
   status (get_frame (load_alarm_sound True) (Some [1])
     (gen (load_alarm_sound True) (replicate 17 (Some [0])) initial)) = ''Awake'' \<and>
   alarm_active (get_frame (load_alarm_sound True) (Some [1])
     (gen (load_alarm_sound True) (replicate 17 (Some [0])) initial)) = False"
proof -
  let ?a = "load_alarm_sound True"
  let ?st = "gen ?a (replicate 17 (Some [0])) initial"
  have pos: "0 < (1::nat)" by simp
  have snd: "?a \<noteq> None" by (simp add: load_alarm_sound_def)
  then have ok: "alarm_active ?st \<longrightarrow> ?a \<noteq> None" by simp
  have on: "alarm_active ?st" by code_simp
  have sc: "score ?st = 17" by code_simp
  have thr: "SLEEP_THRESHOLD < 16" by (simp add: SLEEP_THRESHOLD_def)
  from C6_eyes_open [OF pos ok] on snd sc thr show ?thesis by simp
qed

text \<open>
  C7. In every state reached from the initial state, if the latch is set then there is a
  step from which on the latch has been set without interruption (so after it was last
  cleared, or after the start) and after which the score was above
  \<^verbatim>\<open>SLEEP_THRESHOLD\<close>.
\<close>

theorem C7_latch_implies_threshold_exceeded:
  assumes "alarm_active (gen a rds initial)"
  shows "\<exists>i. 0 < i \<and> i \<le> length rds \<and>
           SLEEP_THRESHOLD < score (gen a (take i rds) initial) \<and>
           (\<forall>k\<in>{i..length rds}. alarm_active (gen a (take k rds) initial))"
  using assms
proof (induction rds rule: rev_induct)
  case Nil
  then show ?case by (simp add: initial_def)
next
  case (snoc rd rds)
  let ?mid = "gen a rds initial"
  from snoc.prems have on: "alarm_active (get_frame a rd ?mid)"
    by (simp add: gen_snoc)
  show ?case
  proof (cases "alarm_active ?mid")
    case True
    from snoc.IH [OF True] obtain i where i: "0 < i" "i \<le> length rds"
      "SLEEP_THRESHOLD < score (gen a (take i rds) initial)"
      "\<forall>k\<in>{i..length rds}. alarm_active (gen a (take k rds) initial)"
      by blast
    have "\<forall>k\<in>{i..length (rds @ [rd])}. alarm_active (gen a (take k (rds @ [rd])) initial)"
    proof
      fix k assume k: "k \<in> {i..length (rds @ [rd])}"
      show "alarm_active (gen a (take k (rds @ [rd])) initial)"
      proof (cases "k \<le> length rds")
        case True
        with k i(4) show ?thesis by simp
      next
        case False
        with k have "k = Suc (length rds)" by simp
        with snoc.prems show ?thesis by simp
      qed
    qed
    with i(1,2,3) show ?thesis
      by (intro exI [of _ i]) simp
  next
    case False
    from get_frame_latch [OF False on]
    have "SLEEP_THRESHOLD < score (gen a (rds @ [rd]) initial)"
      by (simp add: gen_snoc)
    with snoc.prems show ?thesis
      by (intro exI [of _ "Suc (length rds)"]) simp
  qed
qed

theorem C7_latch_implies_threshold_exceeded_witness:
  "alarm_active (gen (load_alarm_sound True) (replicate 16 (Some [0]) @ [Some [0]]) initial) \<and>
   (\<exists>i. 0 < i \<and> i \<le> 17 \<and>
      SLEEP_THRESHOLD <
        score (gen (load_alarm_sound True) (take i (replicate 16 (Some [0]) @ [Some [0]])) initial))"
proof -
  let ?a = "load_alarm_sound True"
  let ?rds = "replicate 16 (Some [0]) @ [Some [0]]"
  have on: "alarm_active (gen ?a ?rds initial)" by code_simp
  from C7_latch_implies_threshold_exceeded [OF on] on show ?thesis by auto
qed

text \<open>
  C8, as stated, fails. At score 15 with the latch cleared, a frame with a closed-eyes
  face followed by an open-eyes face starts the sound and stops it again.
\<close>

theorem C8_counterexample:
  "calls (gen (load_alarm_sound True) (replicate 15 (Some [0])) initial) = [] \<and>
   calls (get_frame (load_alarm_sound True) (Some [0, 1])
     (gen (load_alarm_sound True) (replicate 15 (Some [0])) initial)) = [Play_loop, Stop]"
  by code_simp

text \<open>
  C8, amended. A frame makes at most one call on the sound for each of its faces: none
  without a face, at most one with a single face, and possibly a start and a stop with
  several faces.
\<close>

theorem C8_one_command_per_face:
  "\<exists>new. calls (get_frame a (Some faces) st) = calls st @ new \<and> length new \<le> length faces"
proof (cases "faces = []")
  case True
  then show ?thesis by (simp add: get_frame_def)
next
  case False
  from for_faces_calls [of a faces "st\<lparr>status := ''Active'', color := (0, 255, 0)\<rparr>"]
  show ?thesis by (simp add: get_frame_faces [OF False])
qed

text \<open>
  C9, as stated, fails. With two cameras alive, the sixteenth closed-eyes frame of
  camera 0 sets the one flag of the module; a session opened afterwards finds the flag set;
  and an open-eyes frame of camera 1 stops the sound that camera 0 started.
\<close>

theorem C9_counterexample:
  "module_alarm_active
     (camera_gen (load_alarm_sound True) 0 (replicate 15 (Some [0]))
        (VideoCamera_init 1 (VideoCamera_init 0 module_start))) = False \<and>
   module_alarm_active
     (camera_get_frame (load_alarm_sound True) 0 (Some [0])
        (camera_gen (load_alarm_sound True) 0 (replicate 15 (Some [0]))
           (VideoCamera_init 1 (VideoCamera_init 0 module_start)))) = True \<and>
   module_alarm_active
     (video_feed (load_alarm_sound True) 2 []
        (camera_get_frame (load_alarm_sound True) 0 (Some [0])
           (camera_gen (load_alarm_sound True) 0 (replicate 15 (Some [0]))
              (VideoCamera_init 1 (VideoCamera_init 0 module_start))))) = True \<and>
   module_calls
     (camera_get_frame (load_alarm_sound True) 1 (Some [1])
        (camera_get_frame (load_alarm_sound True) 0 (Some [0])
           (camera_gen (load_alarm_sound True) 0 (replicate 15 (Some [0]))
              (VideoCamera_init 1 (VideoCamera_init 0 module_start))))) = [Play_loop, Stop]"
  by code_simp

text \<open>
  C9, amended. A session owns its score only. A frame of camera \<open>c\<close> leaves the score of
  every other camera as it was, and making a camera gives it the score 0 and touches
  neither the other cameras nor the flag. The latch is the one flag of the module: the
  first frame of a new camera starts from the flag the other sessions left.
\<close>

theorem C9_shared_latch_own_score:
  assumes "c \<noteq> d"
  shows "cameras (camera_get_frame a c rd p) d = cameras p d \<and>
         cameras (VideoCamera_init c p) d = cameras p d \<and>
         cameras (VideoCamera_init c p) c = Some 0 \<and>
         module_alarm_active (VideoCamera_init c p) = module_alarm_active p \<and>
         module_alarm_active (camera_get_frame a c rd (VideoCamera_init c p)) =
           alarm_active (get_frame a rd
             \<lparr>score = 0, alarm_active = module_alarm_active p, status = [],
              color = (0, 0, 0), calls = module_calls p\<rparr>)"
proof -
  from assms have "cameras (camera_get_frame a c rd p) d = cameras p d"
    by (rule camera_get_frame_other)
  moreover from assms have "cameras (VideoCamera_init c p) d = cameras p d"
    by (simp add: VideoCamera_init_def)
  moreover have "cameras (VideoCamera_init c p) c = Some 0"
    "module_alarm_active (VideoCamera_init c p) = module_alarm_active p"
    by (simp_all add: VideoCamera_init_def)
  moreover have "module_alarm_active (camera_get_frame a c rd (VideoCamera_init c p)) =
           alarm_active (get_frame a rd
             \<lparr>score = 0, alarm_active = module_alarm_active p, status = [],
              color = (0, 0, 0), calls = module_calls p\<rparr>)"
    by (simp add: VideoCamera_init_def camera_get_frame_def Let_def)
  ultimately show ?thesis by simp
qed

theorem C9_shared_latch_own_score_witness:
  "(0::nat) \<noteq> 1 \<and>
   cameras (camera_get_frame (load_alarm_sound True) 0 (Some [0])
     (VideoCamera_init 1 (VideoCamera_init 0 module_start))) 1 = Some 0 \<and>
   cameras (camera_get_frame (load_alarm_sound True) 0 (Some [0])
     (VideoCamera_init 1 (VideoCamera_init 0 module_start))) 0 = Some 1"
proof -
  have ne: "(0::nat) \<noteq> 1" by simp
  have own: "cameras (camera_get_frame (load_alarm_sound True) 0 (Some [0])
     (VideoCamera_init 1 (VideoCamera_init 0 module_start))) 0 = Some 1"
    by code_simp
  have other: "cameras (VideoCamera_init 1 (VideoCamera_init 0 module_start)) 1 = Some 0"
    by (simp add: VideoCamera_init_def)
  from C9_shared_latch_own_score [OF ne, of "load_alarm_sound True" "Some [0]"
      "VideoCamera_init 1 (VideoCamera_init 0 module_start)"] own other
  show ?thesis by simp
qed

text \<open>
  C10. When the alarm file was not there at startup, \<^verbatim>\<open>alarm_sound\<close> is \<^verbatim>\<open>None\<close>
  and the latch is cleared after every input sequence, with no call made on the sound. A
  closed-eyes frame still adds 1 to the score and still gives the status
  "DROWSINESS ALERT!" once the score is above \<^verbatim>\<open>SLEEP_THRESHOLD\<close>, but leaves the
  latch cleared.
\<close>

theorem C10_no_sound_no_latch:
  "(let st = gen (load_alarm_sound False) rds initial;
        st' = get_frame (load_alarm_sound False) (Some [0]) st
    in alarm_active st = False \<and> calls st = [] \<and>
       score st' = score st + 1 \<and>
       status st' = (if score st + 1 > SLEEP_THRESHOLD then ''DROWSINESS ALERT!'' else ''Eyes Closed'') \<and>
       alarm_active st' = False \<and> calls st' = [])"
proof -
  let ?st = "gen None rds initial"
  let ?st' = "get_frame None (Some [0]) ?st"
  have n: "load_alarm_sound False = None" by (simp add: load_alarm_sound_def)
  have a: "alarm_active ?st = False" "calls ?st = []"
    by (simp_all add: gen_no_sound initial_def)
  have b: "alarm_active ?st' = False" "calls ?st' = []"
    by (simp_all add: get_frame_no_sound a)
  have c: "score ?st' = score ?st + 1"
    "status ?st' = (if score ?st + 1 > SLEEP_THRESHOLD then ''DROWSINESS ALERT!'' else ''Eyes Closed'')"
    by (simp_all add: get_frame_one face_body_def eyes_closed_score eyes_closed_status)
  from a b c show ?thesis
    unfolding Let_def n by blast
qed

end
